theory Spec2Isabelle
  imports Main "HOL-Library.Word"
begin

section \<open>Errors\<close>

text \<open>
  A Go \<open>error\<close> value. \<open>Errorf msg\<close> is \<open>fmt.Errorf(msg)\<close> with the verbs already
  substituted; \<open>Wrapf prefix e\<close> is \<open>fmt.Errorf(prefix + "%w", e)\<close>, which keeps the wrapped
  error. \<open>Error\<close> is the method \<open>Error()\<close>.
\<close>

datatype error = Errorf string | Wrapf string error

fun Error :: "error \<Rightarrow> string" where
  "Error (Errorf msg) = msg"
| "Error (Wrapf prefix e) = prefix @ Error e"

section \<open>The web server: route parsing\<close>

text \<open>
  \<open>strings.FieldsFunc(s, f)\<close> of the Go standard library: one pass over the string with
  the start of the current field (here: the field read so far), closing a field at every
  character that satisfies \<open>f\<close> and at the end of the string. Go strings are byte
  sequences and so are HOL strings; the separator used by the server is the ASCII byte
  \<open>/\<close>, which occurs in UTF-8 only as the encoding of itself, so the pass over bytes splits
  where the pass over runes does.
\<close>

fun fieldsLoop :: "(char \<Rightarrow> bool) \<Rightarrow> string option \<Rightarrow> string \<Rightarrow> string list" where
  "fieldsLoop f None [] = []"
| "fieldsLoop f (Some field) [] = [field]"
| "fieldsLoop f None (c # cs) =
     (if f c then fieldsLoop f None cs else fieldsLoop f (Some [c]) cs)"
| "fieldsLoop f (Some field) (c # cs) =
     (if f c then field # fieldsLoop f None cs else fieldsLoop f (Some (field @ [c])) cs)"

definition FieldsFunc :: "string \<Rightarrow> (char \<Rightarrow> bool) \<Rightarrow> string list" where
  "FieldsFunc s f = fieldsLoop f None s"

text \<open>\<open>bundleWebServer.parseRoute\<close>: a switch on the number of elements.\<close>

definition parseRoute :: "string \<Rightarrow> error + (string \<times> string \<times> string)" where
  "parseRoute path =
     (let elements = FieldsFunc path (\<lambda>char. char = CHR ''/'') in
      if length elements = 0 then Inl (Errorf ''empty route'')
      else if length elements = 1 then Inl (Errorf ''route has owner, but no repo'')
      else if length elements = 2 then Inr (elements ! 0, elements ! 1, [])
      else if length elements = 3 then Inr (elements ! 0, elements ! 1, elements ! 2)
      else Inl (Errorf ''path has depth exceeding three''))"

text \<open>
  The specification's wording of the same function: split the path at every \<open>/\<close> and
  ignore the empty segments.
\<close>

fun split_on :: "char \<Rightarrow> string \<Rightarrow> string list" where
  "split_on sep [] = [[]]"
| "split_on sep (c # cs) =
     (if c = sep then [] # split_on sep cs
      else (case split_on sep cs of [] \<Rightarrow> [[c]] | seg # segs \<Rightarrow> (c # seg) # segs))"

definition nonempty_segments :: "string \<Rightarrow> string list" where
  "nonempty_segments path = filter (\<lambda>seg. seg \<noteq> []) (split_on (CHR ''/'') path)"

section \<open>The web server: the request handler\<close>

text \<open>
  \<open>core.Repository\<close>: the fields the commands and the handler read. The type is declared in
  \<open>internal/core\<close>.
\<close>

record repository =
  RepoDir :: string
  WebDir :: string

type_synonym file_content = string

text \<open>
  What the handler reads from outside: the result of
  \<open>repoProvider.GetRepositories(ctx)\<close>, the result of \<open>os.OpenFile(name, O_RDONLY, 0)\<close> for
  every name, \<open>filepath.Join\<close> on two elements, and the two constants of
  \<open>internal/bundles\<close> that name the bundle lists of a repository.
\<close>

record serve_env =
  GetRepositories :: "error + (string \<rightharpoonup> repository)"
  OpenFile :: "string \<Rightarrow> error + file_content"
  Join :: "string \<Rightarrow> string \<Rightarrow> string"
  BundleListFilename :: string
  RepoBundleListFilename :: string

definition StatusNotFound :: nat where
  "StatusNotFound = 404"

definition StatusInternalServerError :: nat where
  "StatusInternalServerError = 500"

text \<open>
  What the handler does with the response: \<open>w.WriteHeader(code)\<close> and return,
  \<open>http.ServeContent(w, r, name, modtime, file)\<close>, or a run-time panic of the index
  expression \<open>path[len(path)-1]\<close>.
\<close>

datatype response = WriteHeader nat | ServeContent string file_content | IndexOutOfRange

text \<open>
  The choice of \<open>fileToServe\<close> in \<open>serve\<close>: \<open>Inr (Some name)\<close> is the file chosen,
  \<open>Inr None\<close> the branch of the reserved file names, \<open>Inl ()\<close> the panic of the index
  expression on an empty path.
\<close>

definition fileToServe :: "serve_env \<Rightarrow> repository \<Rightarrow> string \<Rightarrow> string \<Rightarrow> unit + string option" where
  "fileToServe env repo path filename =
     (if filename = [] then
        (let i = int (length path) - 1 in
         if i < 0 \<or> int (length path) \<le> i then Inl ()
         else if path ! nat i = CHR ''/''
         then Inr (Some (Join env (WebDir repo) (BundleListFilename env)))
         else Inr (Some (Join env (WebDir repo) (RepoBundleListFilename env))))
      else if filename = BundleListFilename env \<or> filename = RepoBundleListFilename env
      then Inr None
      else Inr (Some (Join env (WebDir repo) filename)))"

definition newline :: string where
  "newline = [char_of (10::nat)]"

text \<open>
  \<open>bundleWebServer.serve\<close> on the request path \<open>r.URL.Path\<close>: the response, and the lines
  printed to the standard output.
\<close>

definition serve :: "serve_env \<Rightarrow> string \<Rightarrow> response \<times> string list" where
  "serve env path =
     (case parseRoute path of
        Inl err \<Rightarrow>
          (WriteHeader StatusNotFound, [''Failed to parse route: '' @ Error err @ newline])
      | Inr (owner, repo, filename) \<Rightarrow>
          (let route = owner @ ''/'' @ repo in
           case GetRepositories env of
             Inl err \<Rightarrow>
               (WriteHeader StatusInternalServerError, [''Failed to load routes'' @ newline])
           | Inr repos \<Rightarrow>
               (case repos route of
                  None \<Rightarrow>
                    (WriteHeader StatusNotFound, [''Failed to get route out of repos'' @ newline])
                | Some repo_record \<Rightarrow>
                    (case fileToServe env repo_record path filename of
                       Inl _ \<Rightarrow> (IndexOutOfRange, [])
                     | Inr None \<Rightarrow>
                         (WriteHeader StatusNotFound, [''Failed to open file'' @ newline])
                     | Inr (Some name) \<Rightarrow>
                         (case OpenFile env name of
                            Inl err \<Rightarrow>
                              (WriteHeader StatusNotFound, [''Failed to open file'' @ newline])
                          | Inr content \<Rightarrow>
                              (ServeContent filename content,
                               [''Successfully serving content for '' @ route @ ''/'' @ filename
                                @ newline]))))))"

section \<open>The web server: construction\<close>

text \<open>
  The part of \<open>crypto/tls\<close> and \<open>crypto/x509\<close> that \<open>NewBundleWebServer\<close> sets: the
  \<open>tls.Config\<close> fields \<open>MinVersion\<close>, \<open>ClientAuth\<close> (zero value \<open>NoClientCert\<close>) and
  \<open>ClientCAs\<close> (a pointer, \<open>None\<close> for nil), and a certificate pool as the list of the
  certificates added to it.
\<close>

datatype ClientAuthType =
  NoClientCert | RequestClientCert | RequireAnyClientCert | VerifyClientCertIfGiven
  | RequireAndVerifyClientCert

type_synonym CertPool = "string list"

definition NewCertPool :: CertPool where
  "NewCertPool = []"

record tls_Config =
  MinVersion :: "16 word"
  ClientAuth :: ClientAuthType
  ClientCAs :: "CertPool option"

text \<open>
  \<open>http.Server\<close>: the address and the TLS configuration (\<open>None\<close> for the nil pointer). The
  handler is always the mux that sends every path to \<open>serve\<close>.
\<close>

record http_Server =
  Addr :: string
  TLSConfig :: "tls_Config option"

text \<open>
  The two closures a server may get as \<open>listenAndServeFunc\<close>, and the server itself
  without its logger and its wait group, which the constructor only stores.
\<close>

datatype listenAndServe = ListenAndServe | ListenAndServeTLS string string

record bundleWebServer =
  server :: http_Server
  listenAndServeFunc :: listenAndServe

text \<open>
  What the constructor uses from outside: \<open>os.ReadFile\<close>, and
  \<open>certPool.AppendCertsFromPEM(bytes)\<close>, which gives the pool with the certificates it
  could parse and whether it parsed any.
\<close>

record tls_env =
  ReadFile :: "string \<Rightarrow> error + string"
  AppendCertsFromPEM :: "CertPool \<Rightarrow> string \<Rightarrow> CertPool \<times> bool"

definition NewBundleWebServer ::
  "tls_env \<Rightarrow> string \<Rightarrow> string \<Rightarrow> string \<Rightarrow> 16 word \<Rightarrow> string \<Rightarrow> error + bundleWebServer" where
  "NewBundleWebServer env port certFile keyFile tlsMinVersion clientCAFile =
     (let srv = \<lparr>Addr = '':'' @ port, TLSConfig = None\<rparr> in
      if certFile = [] then Inr \<lparr>server = srv, listenAndServeFunc = ListenAndServe\<rparr>
      else
        (let tlsConfig =
               \<lparr>MinVersion = tlsMinVersion, ClientAuth = NoClientCert, ClientCAs = None\<rparr>;
             serveFunc = ListenAndServeTLS certFile keyFile in
         if clientCAFile \<noteq> [] then
           (case ReadFile env clientCAFile of
              Inl err \<Rightarrow> Inl err
            | Inr caBytes \<Rightarrow>
                (let certPool = fst (AppendCertsFromPEM env NewCertPool caBytes);
                     tlsConfig' =
                       tlsConfig\<lparr>ClientAuth := RequireAndVerifyClientCert,
                                 ClientCAs := Some certPool\<rparr> in
                 Inr \<lparr>server = srv\<lparr>TLSConfig := Some tlsConfig'\<rparr>,
                      listenAndServeFunc = serveFunc\<rparr>))
         else
           Inr \<lparr>server = srv\<lparr>TLSConfig := Some tlsConfig\<rparr>,
                listenAndServeFunc = serveFunc\<rparr>))"

section \<open>The commands \<open>init\<close> and \<open>start\<close>\<close>

text \<open>
  Modelled from the spec: the bundle descriptor and the bundle list, whose types are declared
  in \<open>internal/bundles\<close>. A descriptor has a file name, a creation time and the
  prerequisite state it was built from (none for a base bundle); a bundle list is an ordered
  collection of descriptors and a mode flag, \<open>single\<close> or \<open>incremental\<close>.
\<close>

record Bundle =
  Filename :: string
  CreationTime :: int
  Prerequisites :: "string list"

datatype mode = single | incremental

record BundleList =
  Mode :: mode
  Bundles :: "Bundle list"

text \<open>
  The functions the two commands call and that are not theirs: \<open>core.CreateRepository\<close>,
  \<open>git.GitCommand\<close>, \<open>bundles.CreateInitialBundle\<close>, \<open>git.CreateBundle\<close> (whether a bundle
  was written, and an error), \<open>bundles.CreateSingletonList\<close>, \<open>bundles.WriteBundleList\<close> and
  \<open>os.ReadDir\<close>. Each is given by its result on the arguments of the call.
\<close>

record backend =
  CreateRepository :: "string \<Rightarrow> error + repository"
  GitCommand :: "string list \<Rightarrow> error option"
  CreateInitialBundle :: "repository \<Rightarrow> Bundle"
  CreateBundle :: "string \<Rightarrow> string \<Rightarrow> bool \<times> error option"
  CreateSingletonList :: "Bundle \<Rightarrow> BundleList"
  WriteBundleList :: "BundleList \<Rightarrow> repository \<Rightarrow> error option"
  ReadDir :: "string \<Rightarrow> error + string list"

text \<open>What a command does to the outside, in the order in which it does it.\<close>

datatype event =
  Called_CreateRepository string
  | Called_GitCommand "string list"
  | Called_CreateBundle string string
  | Called_WriteBundleList BundleList repository
  | Called_ReadDir string
  | Called_SetCronSchedule
  | Printf string

text \<open>
  \<open>initCmd.Run\<close> on the two positional arguments \<open>url\<close> and \<open>route\<close>: the error returned
  (\<open>None\<close> for nil) and the events up to the return.
\<close>

definition initCmd_Run :: "backend \<Rightarrow> string \<Rightarrow> string \<Rightarrow> error option \<times> event list" where
  "initCmd_Run be url route =
     (let t0 = [Called_CreateRepository route] in
      case CreateRepository be route of
        Inl err \<Rightarrow> (Some err, t0)
      | Inr repo \<Rightarrow>
     (let clone = [''clone'', ''--bare'', url, RepoDir repo];
          t1 = t0 @ [Printf (''Cloning repository from '' @ url @ newline),
                     Called_GitCommand clone] in
      case GitCommand be clone of
        Some gitErr \<Rightarrow> (Some (Wrapf ''failed to clone repository: '' gitErr), t1)
      | None \<Rightarrow>
     (let config = [''-C'', RepoDir repo, ''config'', ''remote.origin.fetch'',
                    ''+refs/heads/*:refs/heads/*''];
          t2 = t1 @ [Called_GitCommand config] in
      case GitCommand be config of
        Some gitErr \<Rightarrow> (Some (Wrapf ''failed to configure refspec: '' gitErr), t2)
      | None \<Rightarrow>
     (let fetch = [''-C'', RepoDir repo, ''fetch'', ''origin''];
          t3 = t2 @ [Called_GitCommand fetch] in
      case GitCommand be fetch of
        Some gitErr \<Rightarrow> (Some (Wrapf ''failed to fetch latest refs: '' gitErr), t3)
      | None \<Rightarrow>
     (let bundle = CreateInitialBundle be repo;
          t4 = t3 @ [Printf (''Constructing base bundle file at '' @ Filename bundle @ newline),
                     Called_CreateBundle (RepoDir repo) (Filename bundle)] in
      case CreateBundle be (RepoDir repo) (Filename bundle) of
        (written, Some gitErr) \<Rightarrow> (Some (Wrapf ''failed to create bundle: '' gitErr), t4)
      | (written, None) \<Rightarrow>
          if \<not> written
          then (Some (Errorf ''refused to write empty bundle. Is the repo empty?''), t4)
          else
     (let list = CreateSingletonList be bundle;
          t5 = t4 @ [Called_WriteBundleList list repo] in
      case WriteBundleList be list repo of
        Some listErr \<Rightarrow> (Some (Wrapf ''failed to write bundle list: '' listErr), t5)
      | None \<Rightarrow> (None, t5 @ [Called_SetCronSchedule])))))))"

text \<open>\<open>startCmd.Run\<close> on the positional argument \<open>route\<close>.\<close>

definition startCmd_Run :: "backend \<Rightarrow> string \<Rightarrow> error option \<times> event list" where
  "startCmd_Run be route =
     (let t0 = [Called_CreateRepository route] in
      case CreateRepository be route of
        Inl err \<Rightarrow> (Some err, t0)
      | Inr repo \<Rightarrow>
          (let t1 = t0 @ [Called_ReadDir (RepoDir repo)] in
           case ReadDir be (RepoDir repo) of
             Inl err \<Rightarrow>
               (Some (Errorf (''route '' @ [CHR 0x27] @ route @ [CHR 0x27]
                              @ '' appears to have been deleted; use '' @ [CHR 0x27] @ ''init''
                              @ [CHR 0x27] @ '' instead'')), t1)
           | Inr entries \<Rightarrow> (None, t1 @ [Called_SetCronSchedule])))"

section \<open>The published bundle list\<close>

text \<open>
  Modelled from the spec: \<open>bundles.CreateSingletonList\<close>, which is declared in
  \<open>internal/bundles\<close>. The list of the bootstrap case is a fresh singleton list: its mode
  is \<open>single\<close>, one self-contained bundle, and its only descriptor is the base bundle.
\<close>

definition CreateSingletonList_spec :: "Bundle \<Rightarrow> BundleList" where
  "CreateSingletonList_spec b = \<lparr>Mode = single, Bundles = [b]\<rparr>"

text \<open>
  Modelled from the spec: what \<open>bundles.WriteBundleList\<close>, declared in \<open>internal/bundles\<close>,
  publishes. The bundle list of a repository is read from its web directory; a write that
  succeeds replaces the list as a whole, and a write that fails leaves the list published
  before. \<open>published\<close> replays the events of a command on the published lists, which are
  given by web directory.
\<close>

fun published ::
  "backend \<Rightarrow> event list \<Rightarrow> (string \<rightharpoonup> BundleList) \<Rightarrow> (string \<rightharpoonup> BundleList)" where
  "published be [] web = web"
| "published be (Called_WriteBundleList list repo # events) web =
     published be events
       (case WriteBundleList be list repo of
          None \<Rightarrow> web(WebDir repo \<mapsto> list)
        | Some err \<Rightarrow> web)"
| "published be (event # events) web = published be events web"

section \<open>Concrete inputs\<close>

text \<open>
  A registry with the one route \<open>org/repo\<close>, a web directory that holds the two bundle
  lists and one bundle, and the same server when the registry cannot be loaded.
\<close>

definition example_repository :: repository where
  "example_repository = \<lparr>RepoDir = ''/var/git/org/repo'', WebDir = ''/var/www/org/repo''\<rparr>"

definition example_env :: serve_env where
  "example_env =
     \<lparr>GetRepositories = Inr [''org/repo'' \<mapsto> example_repository],
      OpenFile = (\<lambda>name.
        if name = ''/var/www/org/repo/bundle-list'' then Inr ''directory-relative list''
        else if name = ''/var/www/org/repo/repo-bundle-list'' then Inr ''file-relative list''
        else if name = ''/var/www/org/repo/base.bundle'' then Inr ''bundle bytes''
        else Inl (Errorf ''no such file or directory'')),
      Join = (\<lambda>dir name. dir @ ''/'' @ name),
      BundleListFilename = ''bundle-list'',
      RepoBundleListFilename = ''repo-bundle-list''\<rparr>"

definition example_env_load_fails :: serve_env where
  "example_env_load_fails =
     example_env\<lparr>GetRepositories := Inl (Errorf ''failed to parse routes file'')\<rparr>"

text \<open>
  A file system with a client CA file and with a readable file that holds no certificate.
\<close>

definition example_tls_env :: tls_env where
  "example_tls_env =
     \<lparr>ReadFile = (\<lambda>name.
        if name = ''/etc/tls/ca.pem'' then Inr ''PEM of the client CA''
        else if name = ''/etc/tls/notes.txt'' then Inr ''not a certificate''
        else Inl (Errorf ''no such file or directory'')),
      AppendCertsFromPEM = (\<lambda>pool pem.
        if pem = ''PEM of the client CA'' then (pool @ [''client CA''], True)
        else (pool, False))\<rparr>"

text \<open>
  A backend on which every call succeeds, the same backend on an empty repository, and
  the same backend when the working directory of the route has been removed.
\<close>

definition example_bundle :: Bundle where
  "example_bundle =
     \<lparr>Filename = ''/var/www/org/repo/base-1.bundle'', CreationTime = 1, Prerequisites = []\<rparr>"

definition example_backend :: backend where
  "example_backend =
     \<lparr>CreateRepository = (\<lambda>route.
        if route = ''org/repo'' then Inr example_repository
        else Inl (Errorf ''invalid route'')),
      GitCommand = (\<lambda>args. None),
      CreateInitialBundle = (\<lambda>repo. example_bundle),
      CreateBundle = (\<lambda>dir name. (True, None)),
      CreateSingletonList = CreateSingletonList_spec,
      WriteBundleList = (\<lambda>list repo. None),
      ReadDir = (\<lambda>dir. Inr [''HEAD'', ''objects'', ''refs''])\<rparr>"

definition example_backend_empty :: backend where
  "example_backend_empty = example_backend\<lparr>CreateBundle := (\<lambda>dir name. (False, None))\<rparr>"

definition example_backend_removed :: backend where
  "example_backend_removed =
     example_backend\<lparr>ReadDir := (\<lambda>dir. Inl (Errorf ''no such file or directory''))\<rparr>"

section \<open>Route parsing: properties\<close>

lemma split_on_not_Nil: "split_on sep s \<noteq> []"
  by (cases s) (simp_all split: list.split)

lemma fieldsLoop_split_on:
  "fieldsLoop (\<lambda>c. c = sep) start s =
     (case start of
        None \<Rightarrow> filter (\<lambda>seg. seg \<noteq> []) (split_on sep s)
      | Some field \<Rightarrow>
          (field @ hd (split_on sep s)) # filter (\<lambda>seg. seg \<noteq> []) (tl (split_on sep s)))"
proof (induction s arbitrary: start)
  case Nil
  show ?case by (cases start) simp_all
next
  case (Cons c cs)
  obtain seg segs where segs: "split_on sep cs = seg # segs"
    using split_on_not_Nil [of sep cs] by (cases "split_on sep cs") auto
  show ?case
  proof (cases start)
    case None
    then show ?thesis
      using Cons.IH [of None] Cons.IH [of "Some [c]"] segs by simp
  next
    case (Some field)
    then show ?thesis
      using Cons.IH [of None] Cons.IH [of "Some (field @ [c])"] segs by simp
  qed
qed

lemma FieldsFunc_nonempty_segments:
  "FieldsFunc path (\<lambda>char. char = CHR ''/'') = nonempty_segments path"
  by (simp add: FieldsFunc_def nonempty_segments_def fieldsLoop_split_on)

lemma parseRoute_Nil: "parseRoute [] = Inl (Errorf ''empty route'')"
  by (simp add: parseRoute_def FieldsFunc_def)

lemma parseRoute_Inr_not_Nil: "parseRoute path = Inr r \<Longrightarrow> path \<noteq> []"
  using parseRoute_Nil by auto

text \<open>
  C2. \<open>parseRoute\<close> splits the path at \<open>/\<close> and ignores the empty segments: with exactly two
  non-empty segments it returns the owner, the repository and the empty file name, with
  exactly three it returns all three, and with none, one or more than three it returns an
  error. So \<open>/a/b\<close> and \<open>/a/b/c\<close> parse, and \<open>/a\<close>, \<open>/\<close> and \<open>/a/b/c/d\<close> fail.
\<close>

theorem parseRoute_segments:
  "(length (nonempty_segments path) = 2 \<longrightarrow>
      parseRoute path = Inr (nonempty_segments path ! 0, nonempty_segments path ! 1, []))
   \<and> (length (nonempty_segments path) = 3 \<longrightarrow>
      parseRoute path =
        Inr (nonempty_segments path ! 0, nonempty_segments path ! 1, nonempty_segments path ! 2))
   \<and> (length (nonempty_segments path) < 2 \<or> 3 < length (nonempty_segments path) \<longrightarrow>
      (\<exists>err. parseRoute path = Inl err))
   \<and> parseRoute ''/a/b'' = Inr (''a'', ''b'', [])
   \<and> parseRoute ''/a/b/c'' = Inr (''a'', ''b'', ''c'')
   \<and> parseRoute ''/a'' = Inl (Errorf ''route has owner, but no repo'')
   \<and> parseRoute ''/'' = Inl (Errorf ''empty route'')
   \<and> parseRoute ''/a/b/c/d'' = Inl (Errorf ''path has depth exceeding three'')"
proof -
  have general: "length (nonempty_segments path) = 2 \<longrightarrow>
      parseRoute path = Inr (nonempty_segments path ! 0, nonempty_segments path ! 1, [])"
    "length (nonempty_segments path) = 3 \<longrightarrow>
      parseRoute path =
        Inr (nonempty_segments path ! 0, nonempty_segments path ! 1, nonempty_segments path ! 2)"
    "length (nonempty_segments path) < 2 \<or> 3 < length (nonempty_segments path) \<longrightarrow>
      (\<exists>err. parseRoute path = Inl err)"
    by (auto simp: parseRoute_def FieldsFunc_nonempty_segments Let_def)
  have examples: "parseRoute ''/a/b'' = Inr (''a'', ''b'', [])"
    "parseRoute ''/a/b/c'' = Inr (''a'', ''b'', ''c'')"
    "parseRoute ''/a'' = Inl (Errorf ''route has owner, but no repo'')"
    "parseRoute ''/'' = Inl (Errorf ''empty route'')"
    "parseRoute ''/a/b/c/d'' = Inl (Errorf ''path has depth exceeding three'')"
    by (simp_all add: parseRoute_def FieldsFunc_def)
  from general examples show ?thesis by blast
qed

theorem parseRoute_segments_witness:
  "length (nonempty_segments ''/org//repo/'') = 2
   \<and> parseRoute ''/org//repo/'' = Inr (''org'', ''repo'', [])
   \<and> length (nonempty_segments ''org/repo/x.bundle'') = 3
   \<and> parseRoute ''org/repo/x.bundle'' = Inr (''org'', ''repo'', ''x.bundle'')
   \<and> 3 < length (nonempty_segments ''/a/b/c/d/e'')
   \<and> (\<exists>err. parseRoute ''/a/b/c/d/e'' = Inl err)"
  using parseRoute_segments [of "''/org//repo/''"] parseRoute_segments [of "''org/repo/x.bundle''"]
    parseRoute_segments [of "''/a/b/c/d/e''"]
  by (simp add: nonempty_segments_def)

section \<open>The request handler: properties\<close>

lemma fileToServe_in_bounds: "path \<noteq> [] \<Longrightarrow> fileToServe env repo path filename \<noteq> Inl u"
  by (auto simp: fileToServe_def Let_def)

lemma fileToServe_list:
  "path \<noteq> [] \<Longrightarrow>
   fileToServe env repo path [] =
     Inr (Some (Join env (WebDir repo)
       (if last path = CHR ''/'' then BundleListFilename env else RepoBundleListFilename env)))"
  by (simp add: fileToServe_def Let_def last_conv_nth nat_diff_distrib')

lemma fileToServe_reserved:
  "filename \<noteq> [] \<Longrightarrow>
   filename = BundleListFilename env \<or> filename = RepoBundleListFilename env \<Longrightarrow>
   fileToServe env repo path filename = Inr None"
  by (simp add: fileToServe_def)

lemma serve_parse_error:
  "parseRoute path = Inl err \<Longrightarrow> fst (serve env path) = WriteHeader 404"
  by (simp add: serve_def StatusNotFound_def)

lemma serve_load_error:
  "parseRoute path = Inr r \<Longrightarrow> GetRepositories env = Inl err \<Longrightarrow>
   fst (serve env path) = WriteHeader 500"
  by (cases r) (simp add: serve_def StatusInternalServerError_def)

lemma serve_unknown_route:
  "parseRoute path = Inr (owner, repo, filename) \<Longrightarrow> GetRepositories env = Inr repos \<Longrightarrow>
   repos (owner @ ''/'' @ repo) = None \<Longrightarrow> fst (serve env path) = WriteHeader 404"
  by (simp add: serve_def StatusNotFound_def)

lemma serve_resolved:
  "parseRoute path = Inr (owner, repo, filename) \<Longrightarrow> GetRepositories env = Inr repos \<Longrightarrow>
   repos (owner @ ''/'' @ repo) = Some r \<Longrightarrow>
   fst (serve env path) =
     (case fileToServe env r path filename of
        Inl u \<Rightarrow> IndexOutOfRange
      | Inr None \<Rightarrow> WriteHeader 404
      | Inr (Some name) \<Rightarrow>
          (case OpenFile env name of
             Inl err \<Rightarrow> WriteHeader 404
           | Inr content \<Rightarrow> ServeContent filename content))"
  by (simp add: serve_def StatusNotFound_def split: sum.split option.split)

lemma serve_status: "fst (serve env path) = WriteHeader code \<Longrightarrow> code = 404 \<or> code = 500"
  by (auto simp: serve_def StatusNotFound_def StatusInternalServerError_def Let_def
      split: sum.splits option.splits prod.splits)

lemma example_paths:
  "parseRoute ''/org'' = Inl (Errorf ''route has owner, but no repo'')"
  "parseRoute ''/org/repo'' = Inr (''org'', ''repo'', [])"
  "parseRoute ''/org/repo/'' = Inr (''org'', ''repo'', [])"
  "parseRoute ''/other/repo'' = Inr (''other'', ''repo'', [])"
  "parseRoute ''/org/repo/bundle-list'' = Inr (''org'', ''repo'', ''bundle-list'')"
  "parseRoute ''/org/repo/repo-bundle-list'' = Inr (''org'', ''repo'', ''repo-bundle-list'')"
  "parseRoute ''/org/repo/missing.bundle'' = Inr (''org'', ''repo'', ''missing.bundle'')"
  by (simp_all add: parseRoute_def FieldsFunc_def)

text \<open>
  C1, as the handler has it. A path that does not parse, a route that is not in the
  registry, a reserved file name and a file that cannot be opened are each answered with
  status 404; a registry that cannot be loaded is answered with status 500; and the handler
  writes no status other than these two.
\<close>

theorem serve_failure_status:
  "(\<forall>err. parseRoute path = Inl err \<longrightarrow> fst (serve env path) = WriteHeader 404)
   \<and> (\<forall>r err. parseRoute path = Inr r \<and> GetRepositories env = Inl err \<longrightarrow>
        fst (serve env path) = WriteHeader 500)
   \<and> (\<forall>owner repo filename repos.
        parseRoute path = Inr (owner, repo, filename) \<and> GetRepositories env = Inr repos
        \<and> repos (owner @ ''/'' @ repo) = None \<longrightarrow>
        fst (serve env path) = WriteHeader 404)
   \<and> (\<forall>owner repo filename repos r.
        parseRoute path = Inr (owner, repo, filename) \<and> GetRepositories env = Inr repos
        \<and> repos (owner @ ''/'' @ repo) = Some r \<and> filename \<noteq> []
        \<and> (filename = BundleListFilename env \<or> filename = RepoBundleListFilename env) \<longrightarrow>
        fst (serve env path) = WriteHeader 404)
   \<and> (\<forall>owner repo filename repos r name err.
        parseRoute path = Inr (owner, repo, filename) \<and> GetRepositories env = Inr repos
        \<and> repos (owner @ ''/'' @ repo) = Some r
        \<and> fileToServe env r path filename = Inr (Some name) \<and> OpenFile env name = Inl err \<longrightarrow>
        fst (serve env path) = WriteHeader 404)
   \<and> (\<forall>code. fst (serve env path) = WriteHeader code \<longrightarrow> code = 404 \<or> code = 500)"
proof (intro conjI allI impI)
  fix err assume "parseRoute path = Inl err"
  then show "fst (serve env path) = WriteHeader 404" by (rule serve_parse_error)
next
  fix r err assume "parseRoute path = Inr r \<and> GetRepositories env = Inl err"
  then show "fst (serve env path) = WriteHeader 500" by (simp add: serve_load_error)
next
  fix owner repo filename repos
  assume "parseRoute path = Inr (owner, repo, filename) \<and> GetRepositories env = Inr repos
    \<and> repos (owner @ ''/'' @ repo) = None"
  then show "fst (serve env path) = WriteHeader 404" by (simp add: serve_unknown_route)
next
  fix owner repo filename repos r
  assume "parseRoute path = Inr (owner, repo, filename) \<and> GetRepositories env = Inr repos
    \<and> repos (owner @ ''/'' @ repo) = Some r \<and> filename \<noteq> []
    \<and> (filename = BundleListFilename env \<or> filename = RepoBundleListFilename env)"
  then show "fst (serve env path) = WriteHeader 404"
    using fileToServe_reserved [of filename env r path] by (simp add: serve_resolved)
next
  fix owner repo filename repos r name err
  assume "parseRoute path = Inr (owner, repo, filename) \<and> GetRepositories env = Inr repos
    \<and> repos (owner @ ''/'' @ repo) = Some r
    \<and> fileToServe env r path filename = Inr (Some name) \<and> OpenFile env name = Inl err"
  then show "fst (serve env path) = WriteHeader 404" by (simp add: serve_resolved)
next
  fix code assume "fst (serve env path) = WriteHeader code"
  then show "code = 404 \<or> code = 500" by (rule serve_status)
qed

theorem serve_failure_status_witness:
  "fst (serve example_env ''/org'') = WriteHeader 404
   \<and> fst (serve example_env_load_fails ''/org/repo'') = WriteHeader 500
   \<and> fst (serve example_env ''/other/repo'') = WriteHeader 404
   \<and> fst (serve example_env ''/org/repo/bundle-list'') = WriteHeader 404
   \<and> fst (serve example_env ''/org/repo/missing.bundle'') = WriteHeader 404"
proof -
  have "fst (serve example_env ''/org'') = WriteHeader 404"
    using serve_failure_status [of "''/org''" example_env] example_paths(1) by blast
  moreover have "fst (serve example_env_load_fails ''/org/repo'') = WriteHeader 500"
    using serve_failure_status [of "''/org/repo''" example_env_load_fails] example_paths(2)
    by (simp add: example_env_load_fails_def)
  moreover have "fst (serve example_env ''/other/repo'') = WriteHeader 404"
    using serve_failure_status [of "''/other/repo''" example_env] example_paths(4)
    by (simp add: example_env_def)
  moreover have "fst (serve example_env ''/org/repo/bundle-list'') = WriteHeader 404"
    using serve_failure_status [of "''/org/repo/bundle-list''" example_env] example_paths(5)
    by (simp add: example_env_def)
  moreover have "fst (serve example_env ''/org/repo/missing.bundle'') = WriteHeader 404"
    using serve_failure_status [of "''/org/repo/missing.bundle''" example_env] example_paths(7)
    by (simp add: example_env_def example_repository_def fileToServe_def)
  ultimately show ?thesis by blast
qed

text \<open>
  C1, as the claim has it, fails: when the registry cannot be loaded, the request for
  \<open>/org/repo\<close> is answered with status 500, not 404.
\<close>

theorem serve_load_failure_counterexample:
  "GetRepositories example_env_load_fails = Inl (Errorf ''failed to parse routes file'')
   \<and> fst (serve example_env_load_fails ''/org/repo'') = WriteHeader 500
   \<and> fst (serve example_env_load_fails ''/org/repo'') \<noteq> WriteHeader 404"
  by (simp add: serve_def example_paths example_env_load_fails_def
      StatusInternalServerError_def)

text \<open>
  C3. When the parsed file name is empty and the repository resolves, the last character of
  the request path chooses the file: after a trailing \<open>/\<close> the handler opens
  \<open>BundleListFilename\<close> in the web directory of the repository, otherwise
  \<open>RepoBundleListFilename\<close>, and serves what it opened.
\<close>

theorem serve_list_by_trailing_slash:
  assumes "parseRoute path = Inr (owner, repo, [])"
    and "GetRepositories env = Inr repos"
    and "repos (owner @ ''/'' @ repo) = Some r"
  shows "fileToServe env r path [] =
           Inr (Some (Join env (WebDir r)
             (if last path = CHR ''/'' then BundleListFilename env
              else RepoBundleListFilename env)))
         \<and> fst (serve env path) =
             (case OpenFile env (Join env (WebDir r)
                     (if last path = CHR ''/'' then BundleListFilename env
                      else RepoBundleListFilename env)) of
                Inl err \<Rightarrow> WriteHeader 404
              | Inr content \<Rightarrow> ServeContent [] content)"
proof -
  from assms(1) have "path \<noteq> []" by (rule parseRoute_Inr_not_Nil)
  then have chosen: "fileToServe env r path [] =
      Inr (Some (Join env (WebDir r)
        (if last path = CHR ''/'' then BundleListFilename env else RepoBundleListFilename env)))"
    by (rule fileToServe_list)
  show ?thesis
    unfolding serve_resolved [OF assms] chosen by simp
qed

theorem serve_list_by_trailing_slash_witness:
  "fst (serve example_env ''/org/repo/'') = ServeContent [] ''directory-relative list''
   \<and> fst (serve example_env ''/org/repo'') = ServeContent [] ''file-relative list''"
proof -
  have repos: "GetRepositories example_env = Inr [''org/repo'' \<mapsto> example_repository]"
    "[''org/repo'' \<mapsto> example_repository] (''org'' @ ''/'' @ ''repo'') = Some example_repository"
    by (simp_all add: example_env_def)
  show ?thesis
    using serve_list_by_trailing_slash [OF example_paths(3) repos]
      serve_list_by_trailing_slash [OF example_paths(2) repos]
    by (simp add: example_env_def example_repository_def)
qed

text \<open>
  C6, as the handler has it. A request with a non-empty file name that is
  \<open>BundleListFilename\<close> or \<open>RepoBundleListFilename\<close> is answered with status 404 when the
  registry loads, and with status 500 when it does not; in neither case is a file served.
\<close>

theorem serve_reserved_filename:
  assumes "parseRoute path = Inr (owner, repo, filename)"
    and "filename \<noteq> []"
    and "filename = BundleListFilename env \<or> filename = RepoBundleListFilename env"
  shows "fst (serve env path) =
           (case GetRepositories env of
              Inl err \<Rightarrow> WriteHeader 500
            | Inr repos \<Rightarrow> WriteHeader 404)"
proof (cases "GetRepositories env")
  case (Inl err)
  then show ?thesis using assms(1) by (simp add: serve_load_error)
next
  case (Inr repos)
  show ?thesis
  proof (cases "repos (owner @ ''/'' @ repo)")
    case None
    then show ?thesis using assms(1) Inr by (simp add: serve_unknown_route)
  next
    case (Some r)
    then show ?thesis
      using assms Inr fileToServe_reserved [of filename env r path] by (simp add: serve_resolved)
  qed
qed

theorem serve_reserved_filename_witness:
  "parseRoute ''/org/repo/repo-bundle-list'' = Inr (''org'', ''repo'', ''repo-bundle-list'')
   \<and> ''repo-bundle-list'' = RepoBundleListFilename example_env
   \<and> fst (serve example_env ''/org/repo/repo-bundle-list'') = WriteHeader 404"
proof -
  have reserved: "''repo-bundle-list'' = BundleListFilename example_env
      \<or> ''repo-bundle-list'' = RepoBundleListFilename example_env"
    by (simp add: example_env_def)
  have "''repo-bundle-list'' \<noteq> []" by simp
  from serve_reserved_filename [OF example_paths(6) this reserved] example_paths(6)
  show ?thesis by (simp add: example_env_def)
qed

text \<open>
  C6, as the claim has it, fails: when the registry cannot be loaded, the request for the
  reserved file name \<open>bundle-list\<close> is answered with status 500, not 404.
\<close>

theorem serve_reserved_filename_counterexample:
  "parseRoute ''/org/repo/bundle-list'' = Inr (''org'', ''repo'', ''bundle-list'')
   \<and> BundleListFilename example_env_load_fails = ''bundle-list''
   \<and> fst (serve example_env_load_fails ''/org/repo/bundle-list'') = WriteHeader 500
   \<and> fst (serve example_env_load_fails ''/org/repo/bundle-list'') \<noteq> WriteHeader 404"
  by (simp add: serve_def example_paths example_env_load_fails_def example_env_def
      StatusInternalServerError_def)

text \<open>
  C9. When \<open>parseRoute\<close> succeeds the path is not empty, so the index \<open>len(path)-1\<close> of the
  trailing-slash test is within the path: the choice of the file never panics, and the
  handler does not panic on any request.
\<close>

theorem trailing_slash_index_in_bounds:
  "(\<forall>r. parseRoute path = Inr r \<longrightarrow>
      path \<noteq> [] \<and> 0 \<le> int (length path) - 1 \<and> int (length path) - 1 < int (length path)
      \<and> (\<forall>repo filename. fileToServe env repo path filename \<noteq> Inl ()))
   \<and> fst (serve env path) \<noteq> IndexOutOfRange"
proof (cases "parseRoute path")
  case (Inl err)
  then show ?thesis by (simp add: serve_parse_error)
next
  case (Inr r)
  then have nonempty: "path \<noteq> []" by (rule parseRoute_Inr_not_Nil)
  then have bounds: "0 \<le> int (length path) - 1" "int (length path) - 1 < int (length path)"
    by (cases path; simp)+
  from nonempty have chosen: "\<And>repo filename. fileToServe env repo path filename \<noteq> Inl ()"
    by (rule fileToServe_in_bounds)
  then have "fst (serve env path) \<noteq> IndexOutOfRange"
    using Inr by (auto simp: serve_def Let_def split: sum.splits option.splits prod.splits)
  with nonempty bounds chosen show ?thesis by blast
qed

theorem trailing_slash_index_in_bounds_witness:
  "parseRoute ''/org/repo/'' = Inr (''org'', ''repo'', [])
   \<and> fileToServe example_env example_repository ''/org/repo/'' [] \<noteq> Inl ()
   \<and> fst (serve example_env ''/org/repo/'') \<noteq> IndexOutOfRange"
  using trailing_slash_index_in_bounds [of "''/org/repo/''" example_env] example_paths(3)
  by simp

section \<open>Construction of the server: properties\<close>

lemma NewBundleWebServer_plain:
  "NewBundleWebServer env port [] keyFile v clientCAFile =
     Inr \<lparr>server = \<lparr>Addr = '':'' @ port, TLSConfig = None\<rparr>,
          listenAndServeFunc = ListenAndServe\<rparr>"
  by (simp add: NewBundleWebServer_def)

lemma NewBundleWebServer_tls:
  "certFile \<noteq> [] \<Longrightarrow>
   NewBundleWebServer env port certFile keyFile v [] =
     Inr \<lparr>server = \<lparr>Addr = '':'' @ port,
                     TLSConfig = Some \<lparr>MinVersion = v, ClientAuth = NoClientCert,
                                       ClientCAs = None\<rparr>\<rparr>,
          listenAndServeFunc = ListenAndServeTLS certFile keyFile\<rparr>"
  by (simp add: NewBundleWebServer_def)

lemma NewBundleWebServer_mutual_tls:
  "certFile \<noteq> [] \<Longrightarrow> clientCAFile \<noteq> [] \<Longrightarrow> ReadFile env clientCAFile = Inr caBytes \<Longrightarrow>
   NewBundleWebServer env port certFile keyFile v clientCAFile =
     Inr \<lparr>server = \<lparr>Addr = '':'' @ port,
                     TLSConfig = Some \<lparr>MinVersion = v, ClientAuth = RequireAndVerifyClientCert,
                       ClientCAs = Some (fst (AppendCertsFromPEM env NewCertPool caBytes))\<rparr>\<rparr>,
          listenAndServeFunc = ListenAndServeTLS certFile keyFile\<rparr>"
  by (simp add: NewBundleWebServer_def)

lemma NewBundleWebServer_error_iff:
  "NewBundleWebServer env port certFile keyFile v clientCAFile = Inl err \<longleftrightarrow>
   certFile \<noteq> [] \<and> clientCAFile \<noteq> [] \<and> ReadFile env clientCAFile = Inl err"
  by (auto simp: NewBundleWebServer_def Let_def split: sum.splits if_splits)

text \<open>
  C8. With an empty certificate file the server is a plain HTTP server: it has no TLS
  configuration and listens with \<open>ListenAndServe\<close>. With a certificate file the server has
  a TLS configuration with the minimum version given and listens with
  \<open>ListenAndServeTLS\<close> on the certificate and the key; with a client CA file as well, the
  configuration requires and verifies client certificates against the pool built from the
  bytes of that file.
\<close>

theorem NewBundleWebServer_configuration:
  "(certFile = [] \<longrightarrow>
      NewBundleWebServer env port certFile keyFile v clientCAFile =
        Inr \<lparr>server = \<lparr>Addr = '':'' @ port, TLSConfig = None\<rparr>,
             listenAndServeFunc = ListenAndServe\<rparr>)
   \<and> (certFile \<noteq> [] \<and> clientCAFile = [] \<longrightarrow>
      NewBundleWebServer env port certFile keyFile v clientCAFile =
        Inr \<lparr>server = \<lparr>Addr = '':'' @ port,
                        TLSConfig = Some \<lparr>MinVersion = v, ClientAuth = NoClientCert,
                                          ClientCAs = None\<rparr>\<rparr>,
             listenAndServeFunc = ListenAndServeTLS certFile keyFile\<rparr>)
   \<and> (\<forall>caBytes. certFile \<noteq> [] \<and> clientCAFile \<noteq> [] \<and> ReadFile env clientCAFile = Inr caBytes \<longrightarrow>
      NewBundleWebServer env port certFile keyFile v clientCAFile =
        Inr \<lparr>server = \<lparr>Addr = '':'' @ port,
                        TLSConfig = Some \<lparr>MinVersion = v,
                          ClientAuth = RequireAndVerifyClientCert,
                          ClientCAs = Some (fst (AppendCertsFromPEM env NewCertPool caBytes))\<rparr>\<rparr>,
             listenAndServeFunc = ListenAndServeTLS certFile keyFile\<rparr>)
   \<and> (\<forall>s. NewBundleWebServer env port certFile keyFile v clientCAFile = Inr s \<and> certFile \<noteq> [] \<longrightarrow>
      (\<exists>config. TLSConfig (server s) = Some config \<and> MinVersion config = v)
      \<and> listenAndServeFunc s = ListenAndServeTLS certFile keyFile)
   \<and> (\<forall>s. NewBundleWebServer env port certFile keyFile v clientCAFile = Inr s
          \<and> certFile \<noteq> [] \<and> clientCAFile \<noteq> [] \<longrightarrow>
      (\<exists>config caBytes. ReadFile env clientCAFile = Inr caBytes
         \<and> TLSConfig (server s) = Some config
         \<and> ClientAuth config = RequireAndVerifyClientCert
         \<and> ClientCAs config = Some (fst (AppendCertsFromPEM env NewCertPool caBytes))))"
proof -
  have plain: "certFile = [] \<longrightarrow>
      NewBundleWebServer env port certFile keyFile v clientCAFile =
        Inr \<lparr>server = \<lparr>Addr = '':'' @ port, TLSConfig = None\<rparr>,
             listenAndServeFunc = ListenAndServe\<rparr>"
    by (simp add: NewBundleWebServer_plain)
  have tls: "certFile \<noteq> [] \<and> clientCAFile = [] \<longrightarrow>
      NewBundleWebServer env port certFile keyFile v clientCAFile =
        Inr \<lparr>server = \<lparr>Addr = '':'' @ port,
                        TLSConfig = Some \<lparr>MinVersion = v, ClientAuth = NoClientCert,
                                          ClientCAs = None\<rparr>\<rparr>,
             listenAndServeFunc = ListenAndServeTLS certFile keyFile\<rparr>"
    by (simp add: NewBundleWebServer_tls)
  have mutual: "\<forall>caBytes. certFile \<noteq> [] \<and> clientCAFile \<noteq> []
        \<and> ReadFile env clientCAFile = Inr caBytes \<longrightarrow>
      NewBundleWebServer env port certFile keyFile v clientCAFile =
        Inr \<lparr>server = \<lparr>Addr = '':'' @ port,
                        TLSConfig = Some \<lparr>MinVersion = v,
                          ClientAuth = RequireAndVerifyClientCert,
                          ClientCAs = Some (fst (AppendCertsFromPEM env NewCertPool caBytes))\<rparr>\<rparr>,
             listenAndServeFunc = ListenAndServeTLS certFile keyFile\<rparr>"
    by (simp add: NewBundleWebServer_mutual_tls)
  have returned: "\<forall>s. NewBundleWebServer env port certFile keyFile v clientCAFile = Inr s
        \<and> certFile \<noteq> [] \<longrightarrow>
      (\<exists>config. TLSConfig (server s) = Some config \<and> MinVersion config = v)
      \<and> listenAndServeFunc s = ListenAndServeTLS certFile keyFile"
    by (auto simp: NewBundleWebServer_def Let_def split: sum.splits if_splits)
  have returned_mutual: "\<forall>s. NewBundleWebServer env port certFile keyFile v clientCAFile = Inr s
          \<and> certFile \<noteq> [] \<and> clientCAFile \<noteq> [] \<longrightarrow>
      (\<exists>config caBytes. ReadFile env clientCAFile = Inr caBytes
         \<and> TLSConfig (server s) = Some config
         \<and> ClientAuth config = RequireAndVerifyClientCert
         \<and> ClientCAs config = Some (fst (AppendCertsFromPEM env NewCertPool caBytes)))"
    by (auto simp: NewBundleWebServer_def Let_def split: sum.splits if_splits)
  from plain tls mutual returned returned_mutual show ?thesis by blast
qed

theorem NewBundleWebServer_configuration_witness:
  "NewBundleWebServer example_tls_env ''8080'' [] [] 771 [] =
     Inr \<lparr>server = \<lparr>Addr = '':8080'', TLSConfig = None\<rparr>,
          listenAndServeFunc = ListenAndServe\<rparr>
   \<and> NewBundleWebServer example_tls_env ''443'' ''cert.pem'' ''key.pem'' 771 [] =
     Inr \<lparr>server = \<lparr>Addr = '':443'',
                     TLSConfig = Some \<lparr>MinVersion = 771, ClientAuth = NoClientCert,
                                       ClientCAs = None\<rparr>\<rparr>,
          listenAndServeFunc = ListenAndServeTLS ''cert.pem'' ''key.pem''\<rparr>
   \<and> NewBundleWebServer example_tls_env ''443'' ''cert.pem'' ''key.pem'' 772 ''/etc/tls/ca.pem'' =
     Inr \<lparr>server = \<lparr>Addr = '':443'',
                     TLSConfig = Some \<lparr>MinVersion = 772,
                       ClientAuth = RequireAndVerifyClientCert,
                       ClientCAs = Some [''client CA'']\<rparr>\<rparr>,
          listenAndServeFunc = ListenAndServeTLS ''cert.pem'' ''key.pem''\<rparr>"
proof -
  have plain: "NewBundleWebServer example_tls_env ''8080'' [] [] 771 [] =
     Inr \<lparr>server = \<lparr>Addr = '':8080'', TLSConfig = None\<rparr>,
          listenAndServeFunc = ListenAndServe\<rparr>"
    using NewBundleWebServer_configuration
      [where env = example_tls_env and port = "''8080''" and certFile = "[]"
         and keyFile = "[]" and v = 771 and clientCAFile = "[]"]
    by simp
  have tls: "NewBundleWebServer example_tls_env ''443'' ''cert.pem'' ''key.pem'' 771 [] =
     Inr \<lparr>server = \<lparr>Addr = '':443'',
                     TLSConfig = Some \<lparr>MinVersion = 771, ClientAuth = NoClientCert,
                                       ClientCAs = None\<rparr>\<rparr>,
          listenAndServeFunc = ListenAndServeTLS ''cert.pem'' ''key.pem''\<rparr>"
    using NewBundleWebServer_configuration
      [where env = example_tls_env and port = "''443''" and certFile = "''cert.pem''"
         and keyFile = "''key.pem''" and v = 771 and clientCAFile = "[]"]
    by simp
  have readable: "ReadFile example_tls_env ''/etc/tls/ca.pem'' = Inr ''PEM of the client CA''"
    by (simp add: example_tls_env_def)
  have pool:
    "fst (AppendCertsFromPEM example_tls_env NewCertPool ''PEM of the client CA'') = [''client CA'']"
    by (simp add: example_tls_env_def NewCertPool_def)
  have mutual:
    "NewBundleWebServer example_tls_env ''443'' ''cert.pem'' ''key.pem'' 772 ''/etc/tls/ca.pem'' =
     Inr \<lparr>server = \<lparr>Addr = '':443'',
                     TLSConfig = Some \<lparr>MinVersion = 772,
                       ClientAuth = RequireAndVerifyClientCert,
                       ClientCAs = Some [''client CA'']\<rparr>\<rparr>,
          listenAndServeFunc = ListenAndServeTLS ''cert.pem'' ''key.pem''\<rparr>"
    using NewBundleWebServer_configuration
      [where env = example_tls_env and port = "''443''" and certFile = "''cert.pem''"
         and keyFile = "''key.pem''" and v = 772 and clientCAFile = "''/etc/tls/ca.pem''"]
      readable pool
    by simp
  from plain tls mutual show ?thesis by blast
qed

text \<open>
  C10. The constructor returns an error exactly when the certificate file and the client
  CA file are both given and the client CA file cannot be read, and the error is the one of
  the read. With an empty certificate file the client CA file is not looked at: the result is
  the plain HTTP server whatever the argument and the file system are. A client CA file
  that can be read gives a server even when no certificate could be parsed from it.
\<close>

theorem NewBundleWebServer_error:
  "(\<forall>err. NewBundleWebServer env port certFile keyFile v clientCAFile = Inl err \<longleftrightarrow>
      certFile \<noteq> [] \<and> clientCAFile \<noteq> [] \<and> ReadFile env clientCAFile = Inl err)
   \<and> (certFile = [] \<longrightarrow>
      NewBundleWebServer env port certFile keyFile v clientCAFile =
        NewBundleWebServer env' port certFile keyFile v []
      \<and> (\<exists>s. NewBundleWebServer env port certFile keyFile v clientCAFile = Inr s
            \<and> TLSConfig (server s) = None))
   \<and> (\<forall>caBytes. ReadFile env clientCAFile = Inr caBytes
        \<and> snd (AppendCertsFromPEM env NewCertPool caBytes) = False \<longrightarrow>
      (\<exists>s. NewBundleWebServer env port certFile keyFile v clientCAFile = Inr s))"
proof -
  have error: "\<forall>err. NewBundleWebServer env port certFile keyFile v clientCAFile = Inl err \<longleftrightarrow>
      certFile \<noteq> [] \<and> clientCAFile \<noteq> [] \<and> ReadFile env clientCAFile = Inl err"
    by (simp add: NewBundleWebServer_error_iff)
  have ignored: "certFile = [] \<longrightarrow>
      NewBundleWebServer env port certFile keyFile v clientCAFile =
        NewBundleWebServer env' port certFile keyFile v []
      \<and> (\<exists>s. NewBundleWebServer env port certFile keyFile v clientCAFile = Inr s
            \<and> TLSConfig (server s) = None)"
    by (simp add: NewBundleWebServer_plain)
  have readable: "\<forall>caBytes. ReadFile env clientCAFile = Inr caBytes
        \<and> snd (AppendCertsFromPEM env NewCertPool caBytes) = False \<longrightarrow>
      (\<exists>s. NewBundleWebServer env port certFile keyFile v clientCAFile = Inr s)"
    by (auto simp: NewBundleWebServer_def Let_def)
  from error ignored readable show ?thesis by blast
qed

theorem NewBundleWebServer_error_witness:
  "NewBundleWebServer example_tls_env ''443'' ''cert.pem'' ''key.pem'' 771 ''/etc/tls/missing.pem''
     = Inl (Errorf ''no such file or directory'')
   \<and> NewBundleWebServer example_tls_env ''8080'' [] [] 771 ''/etc/tls/missing.pem'' =
       NewBundleWebServer example_tls_env ''8080'' [] [] 771 []
   \<and> (\<exists>s. NewBundleWebServer example_tls_env ''8080'' [] [] 771 ''/etc/tls/missing.pem'' = Inr s
         \<and> TLSConfig (server s) = None)
   \<and> snd (AppendCertsFromPEM example_tls_env NewCertPool ''not a certificate'') = False
   \<and> (\<exists>s. NewBundleWebServer example_tls_env ''443'' ''cert.pem'' ''key.pem'' 771
             ''/etc/tls/notes.txt'' = Inr s)"
proof -
  have unreadable: "ReadFile example_tls_env ''/etc/tls/missing.pem''
      = Inl (Errorf ''no such file or directory'')"
    by (simp add: example_tls_env_def)
  have error: "NewBundleWebServer example_tls_env ''443'' ''cert.pem'' ''key.pem'' 771
      ''/etc/tls/missing.pem'' = Inl (Errorf ''no such file or directory'')"
    using NewBundleWebServer_error
      [where env = example_tls_env and port = "''443''" and certFile = "''cert.pem''"
         and keyFile = "''key.pem''" and v = 771 and clientCAFile = "''/etc/tls/missing.pem''"]
      unreadable
    by simp
  have ignored: "NewBundleWebServer example_tls_env ''8080'' [] [] 771 ''/etc/tls/missing.pem'' =
       NewBundleWebServer example_tls_env ''8080'' [] [] 771 []
     \<and> (\<exists>s. NewBundleWebServer example_tls_env ''8080'' [] [] 771 ''/etc/tls/missing.pem'' = Inr s
         \<and> TLSConfig (server s) = None)"
    using NewBundleWebServer_error
      [where env = example_tls_env and env' = example_tls_env and port = "''8080''"
         and certFile = "[]" and keyFile = "[]" and v = 771
         and clientCAFile = "''/etc/tls/missing.pem''"]
    by blast
  have readable: "ReadFile example_tls_env ''/etc/tls/notes.txt'' = Inr ''not a certificate''"
    by (simp add: example_tls_env_def)
  have unparsable:
    "snd (AppendCertsFromPEM example_tls_env NewCertPool ''not a certificate'') = False"
    by (simp add: example_tls_env_def)
  have "\<exists>s. NewBundleWebServer example_tls_env ''443'' ''cert.pem'' ''key.pem'' 771
             ''/etc/tls/notes.txt'' = Inr s"
    using NewBundleWebServer_error
      [where env = example_tls_env and port = "''443''" and certFile = "''cert.pem''"
         and keyFile = "''key.pem''" and v = 771 and clientCAFile = "''/etc/tls/notes.txt''"]
      readable unparsable
    by blast
  with error ignored unparsable show ?thesis by blast
qed

section \<open>The commands: properties\<close>

lemma init_events_write:
  "Called_WriteBundleList l r \<in> set (snd (initCmd_Run be url route)) \<Longrightarrow>
   CreateRepository be route = Inr r \<and> l = CreateSingletonList be (CreateInitialBundle be r)
   \<and> CreateBundle be (RepoDir r) (Filename (CreateInitialBundle be r)) = (True, None)"
  by (auto simp: initCmd_Run_def Let_def split: sum.splits option.splits prod.splits if_splits)

lemma init_events_bundle:
  "Called_CreateBundle dir name \<in> set (snd (initCmd_Run be url route)) \<Longrightarrow>
   \<exists>r. CreateRepository be route = Inr r \<and> dir = RepoDir r
     \<and> name = Filename (CreateInitialBundle be r)"
  by (auto simp: initCmd_Run_def Let_def split: sum.splits option.splits prod.splits if_splits)

lemma init_not_written:
  "CreateRepository be route = Inr r \<Longrightarrow>
   Called_CreateBundle (RepoDir r) (Filename (CreateInitialBundle be r))
     \<in> set (snd (initCmd_Run be url route)) \<Longrightarrow>
   CreateBundle be (RepoDir r) (Filename (CreateInitialBundle be r)) = (False, None) \<Longrightarrow>
   fst (initCmd_Run be url route)
     = Some (Errorf ''refused to write empty bundle. Is the repo empty?'')"
  by (auto simp: initCmd_Run_def Let_def split: sum.splits option.splits prod.splits if_splits)

lemma init_events_write_order:
  assumes "Called_WriteBundleList l r \<in> set (snd (initCmd_Run be url route))"
  shows "\<exists>pre post. snd (initCmd_Run be url route) =
      pre @ [Called_CreateBundle (RepoDir r) (Filename (CreateInitialBundle be r)),
             Called_WriteBundleList l r] @ post"
proof -
  let ?pre = "[Called_CreateRepository route,
         Printf (''Cloning repository from '' @ url @ newline),
         Called_GitCommand [''clone'', ''--bare'', url, RepoDir r],
         Called_GitCommand [''-C'', RepoDir r, ''config'', ''remote.origin.fetch'',
                            ''+refs/heads/*:refs/heads/*''],
         Called_GitCommand [''-C'', RepoDir r, ''fetch'', ''origin''],
         Printf (''Constructing base bundle file at '' @ Filename (CreateInitialBundle be r)
                 @ newline)]"
  let ?post = "case WriteBundleList be l r of None \<Rightarrow> [Called_SetCronSchedule] | Some err \<Rightarrow> []"
  from assms have "snd (initCmd_Run be url route) =
      ?pre @ [Called_CreateBundle (RepoDir r) (Filename (CreateInitialBundle be r)),
             Called_WriteBundleList l r] @ ?post"
    by (auto simp: initCmd_Run_def Let_def split: sum.splits option.splits prod.splits if_splits)
  then show ?thesis by blast
qed

lemma init_success:
  "fst (initCmd_Run be url route) = None \<Longrightarrow>
   \<exists>r. CreateRepository be route = Inr r
     \<and> WriteBundleList be (CreateSingletonList be (CreateInitialBundle be r)) r = None
     \<and> snd (initCmd_Run be url route) =
        [Called_CreateRepository route,
         Printf (''Cloning repository from '' @ url @ newline),
         Called_GitCommand [''clone'', ''--bare'', url, RepoDir r],
         Called_GitCommand [''-C'', RepoDir r, ''config'', ''remote.origin.fetch'',
                            ''+refs/heads/*:refs/heads/*''],
         Called_GitCommand [''-C'', RepoDir r, ''fetch'', ''origin''],
         Printf (''Constructing base bundle file at '' @ Filename (CreateInitialBundle be r)
                 @ newline),
         Called_CreateBundle (RepoDir r) (Filename (CreateInitialBundle be r)),
         Called_WriteBundleList (CreateSingletonList be (CreateInitialBundle be r)) r,
         Called_SetCronSchedule]"
  by (auto simp: initCmd_Run_def Let_def split: sum.splits option.splits prod.splits if_splits)

lemma example_init_empty:
  "initCmd_Run example_backend_empty ''https://host/org/repo.git'' ''org/repo'' =
     (Some (Errorf ''refused to write empty bundle. Is the repo empty?''),
      [Called_CreateRepository ''org/repo'',
       Printf (''Cloning repository from https://host/org/repo.git'' @ newline),
       Called_GitCommand [''clone'', ''--bare'', ''https://host/org/repo.git'',
                          ''/var/git/org/repo''],
       Called_GitCommand [''-C'', ''/var/git/org/repo'', ''config'', ''remote.origin.fetch'',
                          ''+refs/heads/*:refs/heads/*''],
       Called_GitCommand [''-C'', ''/var/git/org/repo'', ''fetch'', ''origin''],
       Printf (''Constructing base bundle file at /var/www/org/repo/base-1.bundle'' @ newline),
       Called_CreateBundle ''/var/git/org/repo'' ''/var/www/org/repo/base-1.bundle''])"
  by (simp add: initCmd_Run_def example_backend_empty_def example_backend_def
      example_repository_def example_bundle_def)

lemma example_init:
  "initCmd_Run example_backend ''https://host/org/repo.git'' ''org/repo'' =
     (None,
      [Called_CreateRepository ''org/repo'',
       Printf (''Cloning repository from https://host/org/repo.git'' @ newline),
       Called_GitCommand [''clone'', ''--bare'', ''https://host/org/repo.git'',
                          ''/var/git/org/repo''],
       Called_GitCommand [''-C'', ''/var/git/org/repo'', ''config'', ''remote.origin.fetch'',
                          ''+refs/heads/*:refs/heads/*''],
       Called_GitCommand [''-C'', ''/var/git/org/repo'', ''fetch'', ''origin''],
       Printf (''Constructing base bundle file at /var/www/org/repo/base-1.bundle'' @ newline),
       Called_CreateBundle ''/var/git/org/repo'' ''/var/www/org/repo/base-1.bundle'',
       Called_WriteBundleList (CreateSingletonList_spec example_bundle) example_repository,
       Called_SetCronSchedule])"
  by (simp add: initCmd_Run_def example_backend_def example_repository_def example_bundle_def)

text \<open>
  C4. If \<open>initCmd.Run\<close> asks the backend to create the bundle and the backend answers that
  nothing was written, the command returns the error of the empty repository and never
  calls \<open>WriteBundleList\<close>. Whenever the command does call \<open>WriteBundleList\<close>, the call
  comes right after the call of \<open>CreateBundle\<close>, and that call answered that a bundle was
  written.
\<close>

theorem init_empty_bundle_not_written:
  "(\<forall>dir name. Called_CreateBundle dir name \<in> set (snd (initCmd_Run be url route))
        \<and> CreateBundle be dir name = (False, None) \<longrightarrow>
      fst (initCmd_Run be url route)
        = Some (Errorf ''refused to write empty bundle. Is the repo empty?'')
      \<and> (\<forall>l r. Called_WriteBundleList l r \<notin> set (snd (initCmd_Run be url route))))
   \<and> (\<forall>l r. Called_WriteBundleList l r \<in> set (snd (initCmd_Run be url route)) \<longrightarrow>
        (\<exists>name pre post.
           CreateBundle be (RepoDir r) name = (True, None)
           \<and> snd (initCmd_Run be url route) =
               pre @ [Called_CreateBundle (RepoDir r) name, Called_WriteBundleList l r] @ post))"
proof -
  have refused: "fst (initCmd_Run be url route)
      = Some (Errorf ''refused to write empty bundle. Is the repo empty?'')
    \<and> (\<forall>l r. Called_WriteBundleList l r \<notin> set (snd (initCmd_Run be url route)))"
    if asked: "Called_CreateBundle dir name \<in> set (snd (initCmd_Run be url route))
      \<and> CreateBundle be dir name = (False, None)" for dir name
  proof -
    from asked obtain r where r: "CreateRepository be route = Inr r" "dir = RepoDir r"
        "name = Filename (CreateInitialBundle be r)"
      using init_events_bundle by blast
    have "fst (initCmd_Run be url route)
        = Some (Errorf ''refused to write empty bundle. Is the repo empty?'')"
      using init_not_written [OF r(1)] asked r(2,3) by simp
    moreover have "Called_WriteBundleList l r' \<notin> set (snd (initCmd_Run be url route))" for l r'
    proof
      assume "Called_WriteBundleList l r' \<in> set (snd (initCmd_Run be url route))"
      from init_events_write [OF this] r asked show False by simp
    qed
    ultimately show ?thesis by blast
  qed
  have after: "\<exists>name pre post.
           CreateBundle be (RepoDir r) name = (True, None)
           \<and> snd (initCmd_Run be url route) =
               pre @ [Called_CreateBundle (RepoDir r) name, Called_WriteBundleList l r] @ post"
    if written: "Called_WriteBundleList l r \<in> set (snd (initCmd_Run be url route))" for l r
    using init_events_write [OF written] init_events_write_order [OF written] by blast
  from refused after show ?thesis by blast
qed

theorem init_empty_bundle_not_written_witness:
  "CreateBundle example_backend_empty ''/var/git/org/repo'' ''/var/www/org/repo/base-1.bundle''
     = (False, None)
   \<and> fst (initCmd_Run example_backend_empty ''https://host/org/repo.git'' ''org/repo'')
     = Some (Errorf ''refused to write empty bundle. Is the repo empty?'')
   \<and> (\<forall>l r. Called_WriteBundleList l r
         \<notin> set (snd (initCmd_Run example_backend_empty ''https://host/org/repo.git'' ''org/repo'')))
   \<and> CreateBundle example_backend ''/var/git/org/repo'' ''/var/www/org/repo/base-1.bundle''
     = (True, None)
   \<and> Called_WriteBundleList (CreateSingletonList_spec example_bundle) example_repository
       \<in> set (snd (initCmd_Run example_backend ''https://host/org/repo.git'' ''org/repo''))"
proof -
  have empty: "CreateBundle example_backend_empty ''/var/git/org/repo''
      ''/var/www/org/repo/base-1.bundle'' = (False, None)"
    by (simp add: example_backend_empty_def)
  have asked: "Called_CreateBundle ''/var/git/org/repo'' ''/var/www/org/repo/base-1.bundle''
      \<in> set (snd (initCmd_Run example_backend_empty ''https://host/org/repo.git'' ''org/repo''))"
    by (simp add: example_init_empty)
  have refused:
    "fst (initCmd_Run example_backend_empty ''https://host/org/repo.git'' ''org/repo'')
       = Some (Errorf ''refused to write empty bundle. Is the repo empty?'')
     \<and> (\<forall>l r. Called_WriteBundleList l r
         \<notin> set (snd (initCmd_Run example_backend_empty ''https://host/org/repo.git'' ''org/repo'')))"
    using init_empty_bundle_not_written
      [where be = example_backend_empty and url = "''https://host/org/repo.git''"
         and route = "''org/repo''"] empty asked
    by blast
  have written: "Called_WriteBundleList (CreateSingletonList_spec example_bundle) example_repository
      \<in> set (snd (initCmd_Run example_backend ''https://host/org/repo.git'' ''org/repo''))"
    by (simp add: example_init)
  have "\<exists>name. CreateBundle example_backend (RepoDir example_repository) name = (True, None)"
    using init_empty_bundle_not_written
      [where be = example_backend and url = "''https://host/org/repo.git''"
         and route = "''org/repo''"] written
    by blast
  then have "CreateBundle example_backend ''/var/git/org/repo'' ''/var/www/org/repo/base-1.bundle''
      = (True, None)"
    by (simp add: example_backend_def)
  with empty refused written show ?thesis by blast
qed

text \<open>
  C5. After \<open>initCmd.Run\<close> has returned without an error, the route is registered and the
  bundle list published in the web directory of its repository is in mode \<open>single\<close> and
  has exactly one descriptor, the base bundle that the command created. The list is the
  one of \<open>CreateSingletonList\<close> as the specification describes it.
\<close>

theorem init_publishes_singleton:
  assumes "fst (initCmd_Run be url route) = None"
    and "CreateSingletonList be = CreateSingletonList_spec"
  shows "\<exists>r l. CreateRepository be route = Inr r
     \<and> published be (snd (initCmd_Run be url route)) web (WebDir r) = Some l
     \<and> Mode l = single
     \<and> Bundles l = [CreateInitialBundle be r]
     \<and> length (Bundles l) = 1"
proof -
  from init_success [OF assms(1)] obtain r where
    r: "CreateRepository be route = Inr r"
    and ok: "WriteBundleList be (CreateSingletonList be (CreateInitialBundle be r)) r = None"
    and events: "snd (initCmd_Run be url route) =
        [Called_CreateRepository route,
         Printf (''Cloning repository from '' @ url @ newline),
         Called_GitCommand [''clone'', ''--bare'', url, RepoDir r],
         Called_GitCommand [''-C'', RepoDir r, ''config'', ''remote.origin.fetch'',
                            ''+refs/heads/*:refs/heads/*''],
         Called_GitCommand [''-C'', RepoDir r, ''fetch'', ''origin''],
         Printf (''Constructing base bundle file at '' @ Filename (CreateInitialBundle be r)
                 @ newline),
         Called_CreateBundle (RepoDir r) (Filename (CreateInitialBundle be r)),
         Called_WriteBundleList (CreateSingletonList be (CreateInitialBundle be r)) r,
         Called_SetCronSchedule]"
    by blast
  have "published be (snd (initCmd_Run be url route)) web (WebDir r)
      = Some (CreateSingletonList_spec (CreateInitialBundle be r))"
    unfolding events using ok by (simp add: assms(2))
  then show ?thesis using r by (auto simp: CreateSingletonList_spec_def)
qed

theorem init_publishes_singleton_witness:
  "fst (initCmd_Run example_backend ''https://host/org/repo.git'' ''org/repo'') = None
   \<and> published example_backend
        (snd (initCmd_Run example_backend ''https://host/org/repo.git'' ''org/repo''))
        Map.empty ''/var/www/org/repo''
      = Some \<lparr>Mode = single, Bundles = [example_bundle]\<rparr>"
proof -
  have ok: "fst (initCmd_Run example_backend ''https://host/org/repo.git'' ''org/repo'') = None"
    by (simp add: example_init)
  have spec: "CreateSingletonList example_backend = CreateSingletonList_spec"
    by (simp add: example_backend_def)
  from init_publishes_singleton [OF ok spec, of Map.empty]
  obtain r l where "CreateRepository example_backend ''org/repo'' = Inr r"
    and "published example_backend
        (snd (initCmd_Run example_backend ''https://host/org/repo.git'' ''org/repo''))
        Map.empty (WebDir r) = Some l"
    and "Mode l = single" and "Bundles l = [CreateInitialBundle example_backend r]"
    by blast
  then have "published example_backend
        (snd (initCmd_Run example_backend ''https://host/org/repo.git'' ''org/repo''))
        Map.empty ''/var/www/org/repo''
      = Some \<lparr>Mode = single, Bundles = [example_bundle]\<rparr>"
    by (auto simp: example_backend_def example_repository_def)
  with ok show ?thesis by blast
qed

text \<open>
  C7, as the command has it. \<open>startCmd.Run\<close> first registers the route with
  \<open>CreateRepository\<close> and returns its error if there is one. If then the working directory
  of the repository cannot be read, the command fails: it returns the error that the route
  appears to have been deleted and that \<open>init\<close> is to be used instead, and it does not set
  the schedule. It succeeds, and sets the schedule, exactly when the route was registered
  and the working directory can be read.
\<close>

theorem startCmd_Run_result:
  "(\<forall>err. CreateRepository be route = Inl err \<longrightarrow>
      startCmd_Run be route = (Some err, [Called_CreateRepository route]))
   \<and> (\<forall>r err. CreateRepository be route = Inr r \<and> ReadDir be (RepoDir r) = Inl err \<longrightarrow>
      startCmd_Run be route =
        (Some (Errorf (''route '' @ [CHR 0x27] @ route @ [CHR 0x27]
                       @ '' appears to have been deleted; use '' @ [CHR 0x27] @ ''init''
                       @ [CHR 0x27] @ '' instead'')),
         [Called_CreateRepository route, Called_ReadDir (RepoDir r)]))
   \<and> (\<forall>r entries. CreateRepository be route = Inr r \<and> ReadDir be (RepoDir r) = Inr entries \<longrightarrow>
      startCmd_Run be route =
        (None, [Called_CreateRepository route, Called_ReadDir (RepoDir r),
                Called_SetCronSchedule]))
   \<and> (fst (startCmd_Run be route) = None \<longleftrightarrow>
      (\<exists>r entries. CreateRepository be route = Inr r \<and> ReadDir be (RepoDir r) = Inr entries))"
  by (auto simp: startCmd_Run_def Let_def split: sum.splits)

theorem startCmd_Run_result_witness:
  "startCmd_Run example_backend ''other'' =
     (Some (Errorf ''invalid route''), [Called_CreateRepository ''other''])
   \<and> fst (startCmd_Run example_backend_removed ''org/repo'') \<noteq> None
   \<and> startCmd_Run example_backend ''org/repo'' =
     (None, [Called_CreateRepository ''org/repo'', Called_ReadDir ''/var/git/org/repo'',
             Called_SetCronSchedule])"
proof -
  have "startCmd_Run example_backend ''other'' =
     (Some (Errorf ''invalid route''), [Called_CreateRepository ''other''])"
    using startCmd_Run_result [where be = example_backend and route = "''other''"]
    by (simp add: example_backend_def)
  moreover have "fst (startCmd_Run example_backend_removed ''org/repo'') \<noteq> None"
    using startCmd_Run_result [where be = example_backend_removed and route = "''org/repo''"]
    by (simp add: example_backend_removed_def example_backend_def)
  moreover have "startCmd_Run example_backend ''org/repo'' =
     (None, [Called_CreateRepository ''org/repo'', Called_ReadDir ''/var/git/org/repo'',
             Called_SetCronSchedule])"
    using startCmd_Run_result [where be = example_backend and route = "''org/repo''"]
    by (simp add: example_backend_def example_repository_def)
  ultimately show ?thesis by blast
qed

text \<open>
  C7, as the claim has it, fails: the route \<open>org/repo\<close> is registered, its working
  directory has been removed, and \<open>startCmd.Run\<close> returns an error and does not set the
  schedule.
\<close>

theorem start_removed_directory_counterexample:
  "CreateRepository example_backend_removed ''org/repo'' = Inr example_repository
   \<and> ReadDir example_backend_removed (RepoDir example_repository)
       = Inl (Errorf ''no such file or directory'')
   \<and> startCmd_Run example_backend_removed ''org/repo'' =
       (Some (Errorf (''route '' @ [CHR 0x27] @ ''org/repo'' @ [CHR 0x27]
                      @ '' appears to have been deleted; use '' @ [CHR 0x27] @ ''init''
                      @ [CHR 0x27] @ '' instead'')),
        [Called_CreateRepository ''org/repo'', Called_ReadDir ''/var/git/org/repo''])"
  by (simp add: startCmd_Run_def example_backend_removed_def example_backend_def
      example_repository_def)

end
